theory Spec2Isabelle
  imports Complex_Main "HOL-Library.AList"
begin

section \<open>CarbonSecureAI: the dashboard script \<^verbatim>\<open>main2.py\<close>\<close>

text \<open>
  The script is a Streamlit page: seven tabs of input widgets, two button callbacks
  (\<^verbatim>\<open>calculate_capacity\<close>, \<^verbatim>\<open>add_current_formation\<close>), a batch scoring step in the
  Security Assessment tab and a colour banding in the Visualization tab. All state lives
  in \<^verbatim>\<open>st.session_state\<close>: the widget values under their keys, and the table of
  formations (a pandas DataFrame) under the key \<^verbatim>\<open>formations\<close>.

  Numbers: a finite Python float is modelled as an exact \<^typ>\<open>real\<close>, next to the two
  infinities and NaN. A product overflows to an infinity where IEEE binary64 does; the
  rounding of finite results is not modelled.
\<close>

subsection \<open>Python values and exceptions\<close>

text \<open>
  \<open>Num\<close> is a finite float (the integer flag codes 0 and 1 are embedded), \<open>PInf\<close> and
  \<open>NInf\<close> are \<^verbatim>\<open>inf\<close> and \<^verbatim>\<open>-inf\<close>, \<open>NaN\<close> is \<^verbatim>\<open>nan\<close> (also a missing cell of a
  DataFrame), \<open>NoneV\<close> is Python's \<^verbatim>\<open>None\<close> (an unselected segmented control).
\<close>

datatype val = Str string | Num real | PInf | NInf | NaN | NoneV

datatype exn =
    AttributeError string
  | KeyError "string list"
  | TypeError
  | ValueError
  | IndexError
  | ModelError string

text \<open>Sequencing of statements that may raise: the first exception ends the block.\<close>

definition ebind :: "exn + 'a \<Rightarrow> ('a \<Rightarrow> exn + 'b) \<Rightarrow> exn + 'b" where
  "ebind m f = (case m of Inl e \<Rightarrow> Inl e | Inr x \<Rightarrow> f x)"






text \<open>\<^verbatim>\<open>sec >= c\<close> for a float literal \<open>c\<close>: false on NaN, a TypeError on a string or None.\<close>

fun py_ge :: "val \<Rightarrow> real \<Rightarrow> exn + bool" where
  "py_ge (Num a) c = Inr (c \<le> a)"
| "py_ge PInf c = Inr True"
| "py_ge NInf c = Inr False"
| "py_ge NaN c = Inr False"
| "py_ge _ c = Inl TypeError"

text \<open>Truth value of \<^verbatim>\<open>if selected_name:\<close>.\<close>

fun truthy :: "val \<Rightarrow> bool" where
  "truthy (Str s) = (s \<noteq> [])"
| "truthy (Num x) = (x \<noteq> 0)"
| "truthy PInf = True"
| "truthy NInf = True"
| "truthy NaN = True"
| "truthy NoneV = False"

subsection \<open>The session state\<close>

text \<open>
  A DataFrame is column-oriented, as in pandas: the row count (its RangeIndex) and the
  columns in order, each with one cell per row.
\<close>

record frame =
  nrows :: nat
  columns :: "(string \<times> val list) list"

record session =
  widget_values :: "string \<rightharpoonup> val"
  formations :: frame

text \<open>\<^verbatim>\<open>st.session_state.get(k, d)\<close> and the attribute access \<^verbatim>\<open>st.session_state.k\<close>.\<close>

definition get_default :: "(string \<rightharpoonup> val) \<Rightarrow> string \<Rightarrow> val \<Rightarrow> val" where
  "get_default w k d = (case w k of None \<Rightarrow> d | Some v \<Rightarrow> v)"

definition get_attr :: "(string \<rightharpoonup> val) \<Rightarrow> string \<Rightarrow> exn + val" where
  "get_attr w k = (case w k of None \<Rightarrow> Inl (AttributeError k) | Some v \<Rightarrow> Inr v)"

subsection \<open>Tab 2: \<^verbatim>\<open>calculate_capacity\<close>\<close>


subsection \<open>Tab 5: the table of formations and \<^verbatim>\<open>add_current_formation\<close>\<close>

text \<open>The label \<^verbatim>\<open>T (\<degree>C)\<close> holds a degree sign, written here as its two UTF-8 bytes.\<close>

definition col_T :: string where
  "col_T = ''T ('' @ [CHR 0xC2, CHR 0xB0] @ ''C)''"

definition schema_cols :: "string list" where
  "schema_cols =
     [''Name'', ''Depth (m)'', ''P (MPa)'', col_T,
      ''CO2 Density (kg/m3)'', ''Storage Capacity (Mt)'',
      ''Fault'', ''Seal Thickness (m)'', ''Reservoir Thickness (m)'',
      ''Stacked'', ''Longitude'', ''Latitude'']"

text \<open>\<^verbatim>\<open>pd.DataFrame(columns=[...])\<close>: the table the session starts with.\<close>

definition initial_formations :: frame where
  "initial_formations = \<lparr>nrows = 0, columns = map (\<lambda>c. (c, [])) schema_cols\<rparr>"

text \<open>The dictionary \<^verbatim>\<open>new_entry\<close>, after the two flag codes (which read by attribute).\<close>

definition new_entry :: "(string \<rightharpoonup> val) \<Rightarrow> exn + (string \<times> val) list" where
  "new_entry w =
     ebind (get_attr w ''faulted'') (\<lambda>faulted.
     let fault_code = (if faulted = Str ''Yes'' then Num 1 else Num 0) in
     ebind (get_attr w ''stacked'') (\<lambda>stacked.
     let stacked_code = (if stacked = Str ''Yes'' then Num 1 else Num 0) in
     Inr [(''Name'', get_default w ''reservoir_name'' (Str '''')),
          (''Depth (m)'', get_default w ''depth'' (Num 0)),
          (''P (MPa)'', get_default w ''pressure'' (Num 0)),
          (col_T, get_default w ''temperature'' (Num 0)),
          (''CO2 Density (kg/m3)'',
             get_default w ''co2_density_t3'' (get_default w ''co2_density'' (Num 0))),
          (''Storage Capacity (Mt)'', get_default w ''storage_capacity'' (Num 0)),
          (''Fault'', fault_code),
          (''Seal Thickness (m)'', get_default w ''seal_thickness'' (Num 0)),
          (''Reservoir Thickness (m)'',
             get_default w ''thickness_t3'' (get_default w ''thickness'' (Num 0))),
          (''Stacked'', stacked_code),
          (''Longitude'', get_default w ''longitude'' (Num 0)),
          (''Latitude'', get_default w ''latitude'' (Num 0))]))"

text \<open>
  \<^verbatim>\<open>pd.concat([df, pd.DataFrame([entry])], ignore_index=True)\<close>: an outer join on the
  columns. Every column of \<open>df\<close> gets one more cell (NaN where the entry has no such key);
  a key of the entry that is no column of \<open>df\<close> becomes a new column at the end, NaN in
  the old rows.
\<close>

definition entry_cell :: "(string \<times> val) list \<Rightarrow> string \<Rightarrow> val" where
  "entry_cell entry c = (case map_of entry c of None \<Rightarrow> NaN | Some v \<Rightarrow> v)"

definition concat_row :: "frame \<Rightarrow> (string \<times> val) list \<Rightarrow> frame" where
  "concat_row df entry =
     \<lparr>nrows = nrows df + 1,
      columns =
        map (\<lambda>cv. (fst cv, snd cv @ [entry_cell entry (fst cv)])) (columns df)
        @ map (\<lambda>kv. (fst kv, replicate (nrows df) NaN @ [snd kv]))
            (filter (\<lambda>kv. map_of (columns df) (fst kv) = None) entry)\<rparr>"

definition add_current_formation :: "session \<Rightarrow> exn + session" where
  "add_current_formation st =
     ebind (new_entry (widget_values st)) (\<lambda>entry.
     Inr (st\<lparr>formations := concat_row (formations st) entry\<rparr>))"

subsection \<open>Tab 6: scoring and the metrics of the selected formation\<close>

definition feature_cols :: "string list" where
  "feature_cols =
     [''Depth (m)'', ''P (MPa)'', col_T,
      ''CO2 Density (kg/m3)'', ''Storage Capacity (Mt)'',
      ''Fault'', ''Seal Thickness (m)'',
      ''Reservoir Thickness (m)'', ''Stacked'']"

text \<open>\<^verbatim>\<open>df.empty\<close>: no rows or no columns.\<close>

definition frame_empty :: "frame \<Rightarrow> bool" where
  "frame_empty df \<longleftrightarrow> nrows df = 0 \<or> columns df = []"

text \<open>\<^verbatim>\<open>df[c]\<close> for one label, and \<^verbatim>\<open>df[[c1, ..., cn]]\<close> for a list of labels.\<close>

definition get_column :: "frame \<Rightarrow> string \<Rightarrow> exn + val list" where
  "get_column df c =
     (case map_of (columns df) c of None \<Rightarrow> Inl (KeyError [c]) | Some vs \<Rightarrow> Inr vs)"

fun pick_columns :: "(string \<times> val list) list \<Rightarrow> string list \<Rightarrow> (string \<times> val list) list" where
  "pick_columns al [] = []"
| "pick_columns al (c # cs) =
     (case map_of al c of None \<Rightarrow> pick_columns al cs
      | Some vs \<Rightarrow> (c, vs) # pick_columns al cs)"

definition select_columns :: "frame \<Rightarrow> string list \<Rightarrow> exn + frame" where
  "select_columns df cs =
     (case filter (\<lambda>c. map_of (columns df) c = None) cs of
        [] \<Rightarrow> Inr \<lparr>nrows = nrows df, columns = pick_columns (columns df) cs\<rparr>
      | m # ms \<Rightarrow> Inl (KeyError (m # ms)))"

text \<open>
  \<^verbatim>\<open>df[c] = values\<close>: a length that differs from the row count raises before anything
  is written; otherwise the column is replaced where it stands, or added at the end.
\<close>

definition set_column :: "frame \<Rightarrow> string \<Rightarrow> val list \<Rightarrow> exn + frame" where
  "set_column df c vs =
     (if length vs \<noteq> nrows df then Inl ValueError
      else Inr (df\<lparr>columns := AList.update c vs (columns df)\<rparr>))"

text \<open>
  \<^verbatim>\<open>ndarray.round(d)\<close>: scale by \<open>10^d\<close>, round to the nearest integer with ties to the
  even one, scale back.
\<close>

definition rint :: "real \<Rightarrow> int" where
  "rint x =
     (let f = \<lfloor>x\<rfloor>; d = x - of_int f in
      if d < 1/2 then f
      else if 1/2 < d then f + 1
      else if even f then f else f + 1)"

definition np_round :: "nat \<Rightarrow> real \<Rightarrow> real" where
  "np_round d x = of_int (rint (x * 10 ^ d)) / 10 ^ d"

text \<open>
  The pickled pipeline is a parameter: \<^verbatim>\<open>predict_proba\<close> takes the feature frame and
  returns one pair of class probabilities per row, or raises.
\<close>

type_synonym pipeline = "frame \<Rightarrow> exn + (real \<times> real) list"

text \<open>
  The \<^verbatim>\<open>try\<close> block of tab 6 with its handler. The second component is the exception
  that \<^verbatim>\<open>st.error\<close> reports as \<^verbatim>\<open>Prediction failed: ...\<close>, if any.
\<close>

definition score_formations :: "pipeline \<Rightarrow> frame \<Rightarrow> frame \<times> exn option" where
  "score_formations pipeline df =
     (case ebind (select_columns df feature_cols) (\<lambda>X_test.
           ebind (pipeline X_test) (\<lambda>proba.
           set_column df ''Security'' (map (\<lambda>p. Num (np_round 2 (snd p))) proba)))
      of Inl e \<Rightarrow> (df, Some e)
       | Inr df' \<Rightarrow> (df', None))"

text \<open>
  What entering tab 6 does to the table: the block runs only under
  \<^verbatim>\<open>if not st.session_state.formations.empty\<close>.
\<close>

definition tab6_scoring :: "pipeline \<Rightarrow> frame \<Rightarrow> frame \<times> exn option" where
  "tab6_scoring pipeline df =
     (if \<not> frame_empty df then score_formations pipeline df else (df, None))"

text \<open>\<^verbatim>\<open>df["Name"] == selected_name\<close>, cell by cell: NaN and None equal nothing.\<close>

fun pd_eq :: "val \<Rightarrow> val \<Rightarrow> bool" where
  "pd_eq (Str a) (Str b) = (a = b)"
| "pd_eq (Num a) (Num b) = (a = b)"
| "pd_eq PInf PInf = True"
| "pd_eq NInf NInf = True"
| "pd_eq _ _ = False"

fun first_index :: "('a \<Rightarrow> bool) \<Rightarrow> 'a list \<Rightarrow> nat option" where
  "first_index P [] = None"
| "first_index P (x # xs) =
     (if P x then Some 0 else map_option Suc (first_index P xs))"

text \<open>\<^verbatim>\<open>row[c]\<close> for the row at position \<open>k\<close>.\<close>

definition row_get :: "frame \<Rightarrow> nat \<Rightarrow> string \<Rightarrow> exn + val" where
  "row_get df k c =
     ebind (get_column df c) (\<lambda>vs.
     if k < length vs then Inr (vs ! k) else Inl IndexError)"


text \<open>
  \<^verbatim>\<open>f"{x:.2f}"\<close>: a float is printed in fixed notation with two decimals (ties to the
  even digit), \<^verbatim>\<open>nan\<close> and \<^verbatim>\<open>inf\<close> by name; a string raises ValueError (unknown format
  code) and None raises TypeError (unsupported format string).
\<close>

definition digit_char :: "nat \<Rightarrow> char" where
  "digit_char n = ''0123456789'' ! n"

fun decimal :: "nat \<Rightarrow> string" where
  "decimal n = (if n < 10 then [digit_char n] else decimal (n div 10) @ [digit_char (n mod 10)])"

definition format_2f :: "real \<Rightarrow> string" where
  "format_2f r =
     (let c = nat (rint (\<bar>r\<bar> * 100)) in
      (if r < 0 then ''-'' else [])
      @ decimal (c div 100) @ ''.'' @ [digit_char (c mod 100 div 10), digit_char (c mod 10)])"

fun py_format_2f :: "val \<Rightarrow> exn + string" where
  "py_format_2f (Num r) = Inr (format_2f r)"
| "py_format_2f PInf = Inr ''inf''"
| "py_format_2f NInf = Inr ''-inf''"
| "py_format_2f NaN = Inr ''nan''"
| "py_format_2f (Str s) = Inl ValueError"
| "py_format_2f NoneV = Inl TypeError"

text \<open>
  The metrics block: nothing is shown for a falsy selection; otherwise the first row whose
  Name equals the selection gives the three values, each read from the row and printed
  with two decimals in turn.
\<close>

definition show_metrics :: "frame \<Rightarrow> val \<Rightarrow> exn + (string \<times> string \<times> string) option" where
  "show_metrics df selected_name =
     (if \<not> truthy selected_name then Inr None
      else
        ebind (get_column df ''Name'') (\<lambda>names.
        case first_index (\<lambda>v. pd_eq v selected_name) names of
          None \<Rightarrow> Inl IndexError
        | Some k \<Rightarrow>
            ebind (row_get df k ''Security'') (\<lambda>security.
            ebind (py_format_2f security) (\<lambda>security_text.
            ebind (row_get df k ''Storage Capacity (Mt)'') (\<lambda>capacity.
            ebind (py_format_2f capacity) (\<lambda>capacity_text.
            ebind (row_get df k ''Seal Thickness (m)'') (\<lambda>seal.
            ebind (py_format_2f seal) (\<lambda>seal_text.
            Inr (Some (security_text, capacity_text, seal_text))))))))))"

text \<open>
  \<^verbatim>\<open>st.selectbox\<close>: the option at the position the user picked, the first one until they
  pick or when the pick is no longer among the options, and None without options.
\<close>

definition selectbox :: "val list \<Rightarrow> nat \<Rightarrow> val" where
  "selectbox options choice =
     (case options of
        [] \<Rightarrow> NoneV
      | _ # _ \<Rightarrow> options ! (if choice < length options then choice else 0))"

text \<open>
  One run of the tab-6 block. The first component is the table left in the session state.
  The second is what the run shows: the placeholder, or the error reported by the handler
  (if any) with the metrics (if any); \<open>Inl\<close> is an exception that no handler catches,
  which ends the script run.
\<close>

datatype tab6_view =
    NoFormations
  | Assessment "exn option" "(string \<times> string \<times> string) option"

definition tab6 :: "pipeline \<Rightarrow> nat \<Rightarrow> frame \<Rightarrow> frame \<times> (exn + tab6_view)" where
  "tab6 pipeline choice df =
     (if \<not> frame_empty df then
        (case score_formations pipeline df of (df', reported) \<Rightarrow>
           (df',
            ebind (get_column df' ''Name'') (\<lambda>names.
            ebind (show_metrics df' (selectbox names choice)) (\<lambda>metrics.
            Inr (Assessment reported metrics)))))
      else (df, Inr NoFormations))"

subsection \<open>Tab 7: \<^verbatim>\<open>security_to_color\<close>\<close>

definition security_to_color :: "val \<Rightarrow> exn + nat list" where
  "security_to_color sec =
     ebind (py_ge sec (9/10)) (\<lambda>b1.
     if b1 then Inr [0, 200, 0]
     else ebind (py_ge sec (5/10)) (\<lambda>b2.
       if b2 then Inr [255, 165, 0]
       else Inr [200, 0, 0]))"

subsection \<open>Well-formed tables\<close>

text \<open>
  Column labels are distinct and every column has one cell per row. The initial table is
  so, and \<^verbatim>\<open>concat\<close> and the column assignment keep it so.
\<close>

definition wf_frame :: "frame \<Rightarrow> bool" where
  "wf_frame df \<longleftrightarrow>
     distinct (map fst (columns df)) \<and> list_all (\<lambda>cv. length (snd cv) = nrows df) (columns df)"

section \<open>Basic facts\<close>

lemma ebind_Inr [simp]: "ebind (Inr x) f = f x"
  by (simp add: ebind_def)

lemma ebind_Inl [simp]: "ebind (Inl e) f = Inl e"
  by (simp add: ebind_def)

declare decimal.simps [simp del]

lemma decimal_digit: "n < 10 \<Longrightarrow> decimal n = [digit_char n]"
  by (simp add: decimal.simps)

lemma decimal_more: "\<not> n < 10 \<Longrightarrow> decimal n = decimal (n div 10) @ [digit_char (n mod 10)]"
  by (subst decimal.simps) simp

section \<open>Tab 2: the capacity formula\<close>








section \<open>Tab 7: the colour bands\<close>

text \<open>
  Claim C4. For every score \<open>s\<close>: \<open>s \<ge> 0.9\<close> gives the secure band (green
  \<open>[0, 200, 0]\<close>), \<open>0.5 \<le> s < 0.9\<close> the moderate band (orange \<open>[255, 165, 0]\<close>) and
  \<open>s < 0.5\<close> the insecure band (red \<open>[200, 0, 0]\<close>); both boundaries belong to the
  upper band.
\<close>

theorem security_to_color_bands:
  "(9/10 \<le> s \<longrightarrow> security_to_color (Num s) = Inr [0, 200, 0])
   \<and> (5/10 \<le> s \<and> s < 9/10 \<longrightarrow> security_to_color (Num s) = Inr [255, 165, 0])
   \<and> (s < 5/10 \<longrightarrow> security_to_color (Num s) = Inr [200, 0, 0])"
  by (simp add: security_to_color_def)

text \<open>The scores 0.95, 0.9, 0.5 and 0.49.\<close>

theorem security_to_color_bands_witness:
  "security_to_color (Num (95/100)) = Inr [0, 200, 0]
   \<and> security_to_color (Num (9/10)) = Inr [0, 200, 0]
   \<and> security_to_color (Num (5/10)) = Inr [255, 165, 0]
   \<and> security_to_color (Num (49/100)) = Inr [200, 0, 0]"
  using security_to_color_bands [of "95/100"] security_to_color_bands [of "9/10"]
    security_to_color_bands [of "5/10"] security_to_color_bands [of "49/100"]
  by simp

section \<open>Tab 5: snapshot and append\<close>

text \<open>With both flag widgets registered, the snapshot is the dictionary below.\<close>

lemma new_entry_registered:
  assumes "w ''faulted'' = Some f" and "w ''stacked'' = Some s"
  shows "new_entry w =
     Inr [(''Name'', get_default w ''reservoir_name'' (Str '''')),
          (''Depth (m)'', get_default w ''depth'' (Num 0)),
          (''P (MPa)'', get_default w ''pressure'' (Num 0)),
          (col_T, get_default w ''temperature'' (Num 0)),
          (''CO2 Density (kg/m3)'',
             get_default w ''co2_density_t3'' (get_default w ''co2_density'' (Num 0))),
          (''Storage Capacity (Mt)'', get_default w ''storage_capacity'' (Num 0)),
          (''Fault'', if f = Str ''Yes'' then Num 1 else Num 0),
          (''Seal Thickness (m)'', get_default w ''seal_thickness'' (Num 0)),
          (''Reservoir Thickness (m)'',
             get_default w ''thickness_t3'' (get_default w ''thickness'' (Num 0))),
          (''Stacked'', if s = Str ''Yes'' then Num 1 else Num 0),
          (''Longitude'', get_default w ''longitude'' (Num 0)),
          (''Latitude'', get_default w ''latitude'' (Num 0))]"
  using assms by (simp add: new_entry_def get_attr_def Let_def)

text \<open>A snapshot is only built when both flag widgets are registered.\<close>

lemma new_entry_Inr_flags:
  assumes "new_entry w = Inr e"
  shows "\<exists>f s. w ''faulted'' = Some f \<and> w ''stacked'' = Some s"
  using assms
  by (auto simp: new_entry_def get_attr_def ebind_def Let_def split: option.splits)

lemma new_entry_keys:
  assumes "new_entry w = Inr e"
  shows "map fst e = schema_cols"
proof -
  obtain f s where "w ''faulted'' = Some f" "w ''stacked'' = Some s"
    using new_entry_Inr_flags [OF assms] by blast
  from new_entry_registered [OF this] assms show ?thesis
    by (auto simp: schema_cols_def)
qed

lemma distinct_schema_cols: "distinct schema_cols"
  by (simp add: schema_cols_def col_T_def)

text \<open>
  Claim C5. In the record that the snapshot builds, CO2 density and reservoir thickness
  (each entered in tab 2 and again in tab 3) take the tab-3 value when the session holds
  one, and the tab-2 value when it holds only that.
\<close>

theorem new_entry_cross_tab:
  assumes "new_entry w = Inr e"
  shows "(w ''co2_density_t3'' = Some v \<longrightarrow> map_of e ''CO2 Density (kg/m3)'' = Some v)
       \<and> (w ''co2_density_t3'' = None \<and> w ''co2_density'' = Some v
            \<longrightarrow> map_of e ''CO2 Density (kg/m3)'' = Some v)
       \<and> (w ''thickness_t3'' = Some v \<longrightarrow> map_of e ''Reservoir Thickness (m)'' = Some v)
       \<and> (w ''thickness_t3'' = None \<and> w ''thickness'' = Some v
            \<longrightarrow> map_of e ''Reservoir Thickness (m)'' = Some v)"
proof -
  obtain f s where "w ''faulted'' = Some f" "w ''stacked'' = Some s"
    using new_entry_Inr_flags [OF assms] by blast
  from new_entry_registered [OF this] assms
  show ?thesis
    by (auto simp: get_default_def col_T_def)
qed

text \<open>
  A session with both density values (tab 3 wins) and only the tab-2 thickness (used as
  the fallback).
\<close>

theorem new_entry_cross_tab_witness:
  "new_entry [''co2_density'' \<mapsto> Num 700, ''co2_density_t3'' \<mapsto> Num 650,
              ''thickness'' \<mapsto> Num 40, ''faulted'' \<mapsto> NoneV, ''stacked'' \<mapsto> NoneV] =
     Inr [(''Name'', Str ''''), (''Depth (m)'', Num 0), (''P (MPa)'', Num 0), (col_T, Num 0),
          (''CO2 Density (kg/m3)'', Num 650), (''Storage Capacity (Mt)'', Num 0),
          (''Fault'', Num 0), (''Seal Thickness (m)'', Num 0),
          (''Reservoir Thickness (m)'', Num 40), (''Stacked'', Num 0),
          (''Longitude'', Num 0), (''Latitude'', Num 0)]
   \<and> map_of [(''Name'', Str ''''), (''Depth (m)'', Num 0), (''P (MPa)'', Num 0), (col_T, Num 0),
          (''CO2 Density (kg/m3)'', Num 650), (''Storage Capacity (Mt)'', Num 0),
          (''Fault'', Num 0), (''Seal Thickness (m)'', Num 0),
          (''Reservoir Thickness (m)'', Num 40), (''Stacked'', Num 0),
          (''Longitude'', Num 0), (''Latitude'', Num 0)] ''CO2 Density (kg/m3)'' = Some (Num 650)
   \<and> map_of [(''Name'', Str ''''), (''Depth (m)'', Num 0), (''P (MPa)'', Num 0), (col_T, Num 0),
          (''CO2 Density (kg/m3)'', Num 650), (''Storage Capacity (Mt)'', Num 0),
          (''Fault'', Num 0), (''Seal Thickness (m)'', Num 0),
          (''Reservoir Thickness (m)'', Num 40), (''Stacked'', Num 0),
          (''Longitude'', Num 0), (''Latitude'', Num 0)] ''Reservoir Thickness (m)'' = Some (Num 40)"
proof -
  let ?w = "[''co2_density'' \<mapsto> Num 700, ''co2_density_t3'' \<mapsto> Num 650,
             ''thickness'' \<mapsto> Num 40, ''faulted'' \<mapsto> NoneV, ''stacked'' \<mapsto> NoneV]"
  let ?e = "[(''Name'', Str ''''), (''Depth (m)'', Num 0), (''P (MPa)'', Num 0), (col_T, Num 0),
          (''CO2 Density (kg/m3)'', Num 650), (''Storage Capacity (Mt)'', Num 0),
          (''Fault'', Num 0), (''Seal Thickness (m)'', Num 0),
          (''Reservoir Thickness (m)'', Num 40), (''Stacked'', Num 0),
          (''Longitude'', Num 0), (''Latitude'', Num 0)]"
  have h: "new_entry ?w = Inr ?e"
    by (simp add: new_entry_def get_attr_def get_default_def)
  have t3: "?w ''co2_density_t3'' = Some (Num 650)"
    by simp
  have t2: "?w ''thickness_t3'' = None \<and> ?w ''thickness'' = Some (Num 40)"
    by simp
  from new_entry_cross_tab [OF h, of "Num 650"] t3
  have a: "map_of ?e ''CO2 Density (kg/m3)'' = Some (Num 650)"
    by blast
  from new_entry_cross_tab [OF h, of "Num 40"] t2
  have b: "map_of ?e ''Reservoir Thickness (m)'' = Some (Num 40)"
    by blast
  from h a b show ?thesis
    by blast
qed

text \<open>
  Claim C6. With the two flag widgets registered (they are created in tab 4 on every run,
  and hold \<^verbatim>\<open>None\<close> while nothing is selected), the snapshot is built without an
  exception whatever else the session holds: a numeric field with no value in the session
  is 0.0, a missing name is the empty string, and each flag is 1 for \<^verbatim>\<open>"Yes"\<close>, 0 for
  \<^verbatim>\<open>"No"\<close> and 0 when unselected.
\<close>

theorem new_entry_defaults:
  assumes "w ''faulted'' = Some f" and "w ''stacked'' = Some s"
  shows "\<exists>e. new_entry w = Inr e
     \<and> (w ''reservoir_name'' = None \<longrightarrow> map_of e ''Name'' = Some (Str ''''))
     \<and> (w ''depth'' = None \<longrightarrow> map_of e ''Depth (m)'' = Some (Num 0))
     \<and> (w ''pressure'' = None \<longrightarrow> map_of e ''P (MPa)'' = Some (Num 0))
     \<and> (w ''temperature'' = None \<longrightarrow> map_of e col_T = Some (Num 0))
     \<and> (w ''co2_density_t3'' = None \<and> w ''co2_density'' = None
          \<longrightarrow> map_of e ''CO2 Density (kg/m3)'' = Some (Num 0))
     \<and> (w ''storage_capacity'' = None \<longrightarrow> map_of e ''Storage Capacity (Mt)'' = Some (Num 0))
     \<and> (w ''seal_thickness'' = None \<longrightarrow> map_of e ''Seal Thickness (m)'' = Some (Num 0))
     \<and> (w ''thickness_t3'' = None \<and> w ''thickness'' = None
          \<longrightarrow> map_of e ''Reservoir Thickness (m)'' = Some (Num 0))
     \<and> (w ''longitude'' = None \<longrightarrow> map_of e ''Longitude'' = Some (Num 0))
     \<and> (w ''latitude'' = None \<longrightarrow> map_of e ''Latitude'' = Some (Num 0))
     \<and> (f = Str ''Yes'' \<longrightarrow> map_of e ''Fault'' = Some (Num 1))
     \<and> (f = Str ''No'' \<longrightarrow> map_of e ''Fault'' = Some (Num 0))
     \<and> (f = NoneV \<longrightarrow> map_of e ''Fault'' = Some (Num 0))
     \<and> (s = Str ''Yes'' \<longrightarrow> map_of e ''Stacked'' = Some (Num 1))
     \<and> (s = Str ''No'' \<longrightarrow> map_of e ''Stacked'' = Some (Num 0))
     \<and> (s = NoneV \<longrightarrow> map_of e ''Stacked'' = Some (Num 0))"
  unfolding new_entry_registered [OF assms]
  by (simp add: get_default_def col_T_def)

text \<open>A session that holds nothing but the two flags, one set and one unselected.\<close>

theorem new_entry_defaults_witness:
  "new_entry [''faulted'' \<mapsto> Str ''Yes'', ''stacked'' \<mapsto> NoneV] =
     Inr [(''Name'', Str ''''), (''Depth (m)'', Num 0), (''P (MPa)'', Num 0), (col_T, Num 0),
          (''CO2 Density (kg/m3)'', Num 0), (''Storage Capacity (Mt)'', Num 0),
          (''Fault'', Num 1), (''Seal Thickness (m)'', Num 0),
          (''Reservoir Thickness (m)'', Num 0), (''Stacked'', Num 0),
          (''Longitude'', Num 0), (''Latitude'', Num 0)]
   \<and> map_of [(''Name'', Str ''''), (''Depth (m)'', Num 0), (''P (MPa)'', Num 0), (col_T, Num 0),
          (''CO2 Density (kg/m3)'', Num 0), (''Storage Capacity (Mt)'', Num 0),
          (''Fault'', Num 1), (''Seal Thickness (m)'', Num 0),
          (''Reservoir Thickness (m)'', Num 0), (''Stacked'', Num 0),
          (''Longitude'', Num 0), (''Latitude'', Num 0)] ''Fault'' = Some (Num 1)"
  using new_entry_defaults [of "[''faulted'' \<mapsto> Str ''Yes'', ''stacked'' \<mapsto> NoneV]" "Str ''Yes''" NoneV]
  by (simp add: new_entry_def get_attr_def get_default_def col_T_def)

text \<open>Without the flag widget the attribute access raises.\<close>

lemma new_entry_unregistered:
  "w ''faulted'' = None \<Longrightarrow> new_entry w = Inl (AttributeError ''faulted'')"
  by (simp add: new_entry_def get_attr_def)

subsection \<open>\<^verbatim>\<open>pd.concat\<close> with a one-row frame\<close>

lemma map_of_map_keyed:
  "map_of (map (\<lambda>cv. (fst cv, h (fst cv) (snd cv))) al) c = map_option (h c) (map_of al c)"
  by (induction al) auto

lemma map_of_map_filter_keyed:
  "map_of (map (\<lambda>kv. (fst kv, g (snd kv))) (filter (\<lambda>kv. P (fst kv)) e)) c =
     (if P c then map_option g (map_of e c) else None)"
  by (induction e) auto

lemma map_of_concat_row:
  "map_of (columns (concat_row df e)) c =
     (case map_of (columns df) c of
        Some vs \<Rightarrow> Some (vs @ [entry_cell e c])
      | None \<Rightarrow> map_option (\<lambda>v. replicate (nrows df) NaN @ [v]) (map_of e c))"
proof -
  have old: "map_of (map (\<lambda>cv. (fst cv, snd cv @ [entry_cell e (fst cv)])) (columns df)) c
      = map_option (\<lambda>vs. vs @ [entry_cell e c]) (map_of (columns df) c)"
    using map_of_map_keyed [of "\<lambda>k vs. vs @ [entry_cell e k]" "columns df" c] by simp
  have new: "map_of (map (\<lambda>kv. (fst kv, replicate (nrows df) NaN @ [snd kv]))
            (filter (\<lambda>kv. map_of (columns df) (fst kv) = None) e)) c
      = (if map_of (columns df) c = None
         then map_option (\<lambda>v. replicate (nrows df) NaN @ [v]) (map_of e c) else None)"
    using map_of_map_filter_keyed
      [of "\<lambda>v. replicate (nrows df) NaN @ [v]" "\<lambda>k. map_of (columns df) k = None" e c]
    by simp
  show ?thesis
    unfolding concat_row_def
    by (simp add: map_of_append old new map_add_def split: option.splits)
qed

lemma keys_concat_row:
  "map fst (columns (concat_row df e)) =
     map fst (columns df) @ filter (\<lambda>k. map_of (columns df) k = None) (map fst e)"
  by (simp add: concat_row_def filter_map comp_def)

lemma wf_initial_formations: "wf_frame initial_formations"
  by (simp add: wf_frame_def initial_formations_def comp_def distinct_schema_cols list_all_iff)

lemma wf_concat_row:
  assumes "wf_frame df" and "distinct (map fst e)"
  shows "wf_frame (concat_row df e)"
proof -
  have d: "distinct (map fst (columns df))" using assms(1) by (simp add: wf_frame_def)
  have disj: "set (map fst (columns df)) \<inter> set (filter (\<lambda>k. map_of (columns df) k = None) (map fst e)) = {}"
    by (auto simp: map_of_eq_None_iff)
  have "distinct (map fst (columns (concat_row df e)))"
    unfolding keys_concat_row using d assms(2) disj by (simp add: distinct_map_filter)
  moreover have "list_all (\<lambda>cv. length (snd cv) = nrows (concat_row df e)) (columns (concat_row df e))"
    using assms(1) by (auto simp: wf_frame_def concat_row_def list_all_iff)
  ultimately show ?thesis by (simp add: wf_frame_def)
qed

lemma concat_row_initial:
  assumes "map fst e = schema_cols"
  shows "concat_row initial_formations e =
           \<lparr>nrows = 1, columns = map (\<lambda>c. (c, [entry_cell e c])) schema_cols\<rparr>"
proof -
  have "filter (\<lambda>kv. map_of (map (\<lambda>c. (c, [])) schema_cols) (fst kv) = None) e = []"
    using assms by (auto simp: filter_empty_conv map_of_eq_None_iff image_image) (metis fst_conv image_eqI list.set_map)
  then show ?thesis
    by (simp add: concat_row_def initial_formations_def comp_def)
qed

lemma concat_row_known_keys:
  assumes "set (map fst e) \<subseteq> set (map fst (columns df))"
  shows "concat_row df e =
           \<lparr>nrows = nrows df + 1,
            columns = map (\<lambda>cv. (fst cv, snd cv @ [entry_cell e (fst cv)])) (columns df)\<rparr>"
proof -
  have "filter (\<lambda>kv. map_of (columns df) (fst kv) = None) e = []"
    using assms by (auto simp: filter_empty_conv map_of_eq_None_iff)
  then show ?thesis
    by (simp add: concat_row_def)
qed

text \<open>
  Claim C7. One click on Add Formation appends exactly one record: the row count grows by
  one, every existing column keeps its cells in order and gets the snapshot's cell (NaN
  when the snapshot has no such field) at the end, and a schema column the table lacks is
  added with NaN in the old rows. Nothing looks at the names already in the table, so a
  name may repeat. From the initial empty table, two clicks (the inputs being \<open>w1\<close> at the
  first and \<open>w2\<close> at the second) give a table of two rows, the first snapshot before the
  second, in every column.
\<close>

theorem add_current_formation_appends:
  assumes e: "new_entry (widget_values st) = Inr e"
      and e1: "new_entry w1 = Inr e1"
      and e2: "new_entry w2 = Inr e2"
  shows "add_current_formation st = Inr (st\<lparr>formations := concat_row (formations st) e\<rparr>)
       \<and> nrows (concat_row (formations st) e) = nrows (formations st) + 1
       \<and> (\<forall>c vs. map_of (columns (formations st)) c = Some vs
             \<longrightarrow> map_of (columns (concat_row (formations st) e)) c = Some (vs @ [entry_cell e c]))
       \<and> (\<forall>c v. map_of (columns (formations st)) c = None \<and> map_of e c = Some v
             \<longrightarrow> map_of (columns (concat_row (formations st) e)) c
                   = Some (replicate (nrows (formations st)) NaN @ [v]))
       \<and> map fst (columns (concat_row (formations st) e)) =
           map fst (columns (formations st))
           @ filter (\<lambda>k. map_of (columns (formations st)) k = None) schema_cols
       \<and> add_current_formation \<lparr>widget_values = w1, formations = initial_formations\<rparr>
           = Inr \<lparr>widget_values = w1, formations =
                   \<lparr>nrows = 1, columns = map (\<lambda>c. (c, [entry_cell e1 c])) schema_cols\<rparr>\<rparr>
       \<and> add_current_formation \<lparr>widget_values = w2, formations =
                   \<lparr>nrows = 1, columns = map (\<lambda>c. (c, [entry_cell e1 c])) schema_cols\<rparr>\<rparr>
           = Inr \<lparr>widget_values = w2, formations =
                   \<lparr>nrows = 2,
                    columns = map (\<lambda>c. (c, [entry_cell e1 c, entry_cell e2 c])) schema_cols\<rparr>\<rparr>"
proof (intro conjI)
  show "add_current_formation st = Inr (st\<lparr>formations := concat_row (formations st) e\<rparr>)"
    by (simp add: add_current_formation_def e)
  show "nrows (concat_row (formations st) e) = nrows (formations st) + 1"
    by (simp add: concat_row_def)
  show "\<forall>c vs. map_of (columns (formations st)) c = Some vs
          \<longrightarrow> map_of (columns (concat_row (formations st) e)) c = Some (vs @ [entry_cell e c])"
    by (simp add: map_of_concat_row)
  show "\<forall>c v. map_of (columns (formations st)) c = None \<and> map_of e c = Some v
          \<longrightarrow> map_of (columns (concat_row (formations st) e)) c
                = Some (replicate (nrows (formations st)) NaN @ [v])"
    by (simp add: map_of_concat_row)
  show "map fst (columns (concat_row (formations st) e)) =
          map fst (columns (formations st))
          @ filter (\<lambda>k. map_of (columns (formations st)) k = None) schema_cols"
    by (simp add: keys_concat_row new_entry_keys [OF e])
next
  let ?df1 = "\<lparr>nrows = 1, columns = map (\<lambda>c. (c, [entry_cell e1 c])) schema_cols\<rparr>"
  let ?df2 = "\<lparr>nrows = 2, columns = map (\<lambda>c. (c, [entry_cell e1 c, entry_cell e2 c])) schema_cols\<rparr>"
  show "add_current_formation \<lparr>widget_values = w1, formations = initial_formations\<rparr>
          = Inr \<lparr>widget_values = w1, formations = ?df1\<rparr>"
    by (simp add: add_current_formation_def e1 concat_row_initial [OF new_entry_keys [OF e1]])
  have "set (map fst e2) \<subseteq> set (map fst (columns ?df1))"
    by (simp add: new_entry_keys [OF e2] comp_def)
  from concat_row_known_keys [OF this]
  have "concat_row ?df1 e2 = ?df2"
    by (simp add: comp_def)
  then show "add_current_formation \<lparr>widget_values = w2, formations = ?df1\<rparr>
          = Inr \<lparr>widget_values = w2, formations = ?df2\<rparr>"
    by (simp add: add_current_formation_def e2)
qed

text \<open>Two formations with the same name, added one after the other.\<close>

theorem add_current_formation_appends_witness:
  "add_current_formation
     \<lparr>widget_values = [''reservoir_name'' \<mapsto> Str ''A'', ''depth'' \<mapsto> Num 1200,
                       ''faulted'' \<mapsto> Str ''Yes'', ''stacked'' \<mapsto> NoneV],
      formations = initial_formations\<rparr>
   = Inr \<lparr>widget_values = [''reservoir_name'' \<mapsto> Str ''A'', ''depth'' \<mapsto> Num 1200,
                       ''faulted'' \<mapsto> Str ''Yes'', ''stacked'' \<mapsto> NoneV],
      formations = \<lparr>nrows = 1, columns =
        [(''Name'', [Str ''A'']), (''Depth (m)'', [Num 1200]), (''P (MPa)'', [Num 0]),
         (col_T, [Num 0]), (''CO2 Density (kg/m3)'', [Num 0]),
         (''Storage Capacity (Mt)'', [Num 0]), (''Fault'', [Num 1]),
         (''Seal Thickness (m)'', [Num 0]), (''Reservoir Thickness (m)'', [Num 0]),
         (''Stacked'', [Num 0]), (''Longitude'', [Num 0]), (''Latitude'', [Num 0])]\<rparr>\<rparr>
   \<and> add_current_formation
     \<lparr>widget_values = [''reservoir_name'' \<mapsto> Str ''A'', ''depth'' \<mapsto> Num 900,
                       ''faulted'' \<mapsto> Str ''No'', ''stacked'' \<mapsto> Str ''Yes''],
      formations = \<lparr>nrows = 1, columns =
        [(''Name'', [Str ''A'']), (''Depth (m)'', [Num 1200]), (''P (MPa)'', [Num 0]),
         (col_T, [Num 0]), (''CO2 Density (kg/m3)'', [Num 0]),
         (''Storage Capacity (Mt)'', [Num 0]), (''Fault'', [Num 1]),
         (''Seal Thickness (m)'', [Num 0]), (''Reservoir Thickness (m)'', [Num 0]),
         (''Stacked'', [Num 0]), (''Longitude'', [Num 0]), (''Latitude'', [Num 0])]\<rparr>\<rparr>
   = Inr \<lparr>widget_values = [''reservoir_name'' \<mapsto> Str ''A'', ''depth'' \<mapsto> Num 900,
                       ''faulted'' \<mapsto> Str ''No'', ''stacked'' \<mapsto> Str ''Yes''],
      formations = \<lparr>nrows = 2, columns =
        [(''Name'', [Str ''A'', Str ''A'']), (''Depth (m)'', [Num 1200, Num 900]),
         (''P (MPa)'', [Num 0, Num 0]), (col_T, [Num 0, Num 0]),
         (''CO2 Density (kg/m3)'', [Num 0, Num 0]),
         (''Storage Capacity (Mt)'', [Num 0, Num 0]), (''Fault'', [Num 1, Num 0]),
         (''Seal Thickness (m)'', [Num 0, Num 0]), (''Reservoir Thickness (m)'', [Num 0, Num 0]),
         (''Stacked'', [Num 0, Num 1]), (''Longitude'', [Num 0, Num 0]),
         (''Latitude'', [Num 0, Num 0])]\<rparr>\<rparr>"
proof -
  let ?w1 = "[''reservoir_name'' \<mapsto> Str ''A'', ''depth'' \<mapsto> Num 1200,
              ''faulted'' \<mapsto> Str ''Yes'', ''stacked'' \<mapsto> NoneV]"
  let ?w2 = "[''reservoir_name'' \<mapsto> Str ''A'', ''depth'' \<mapsto> Num 900,
              ''faulted'' \<mapsto> Str ''No'', ''stacked'' \<mapsto> Str ''Yes'']"
  let ?e1 = "[(''Name'', Str ''A''), (''Depth (m)'', Num 1200), (''P (MPa)'', Num 0),
         (col_T, Num 0), (''CO2 Density (kg/m3)'', Num 0),
         (''Storage Capacity (Mt)'', Num 0), (''Fault'', Num 1),
         (''Seal Thickness (m)'', Num 0), (''Reservoir Thickness (m)'', Num 0),
         (''Stacked'', Num 0), (''Longitude'', Num 0), (''Latitude'', Num 0)]"
  let ?e2 = "[(''Name'', Str ''A''), (''Depth (m)'', Num 900), (''P (MPa)'', Num 0),
         (col_T, Num 0), (''CO2 Density (kg/m3)'', Num 0),
         (''Storage Capacity (Mt)'', Num 0), (''Fault'', Num 0),
         (''Seal Thickness (m)'', Num 0), (''Reservoir Thickness (m)'', Num 0),
         (''Stacked'', Num 1), (''Longitude'', Num 0), (''Latitude'', Num 0)]"
  have h1: "new_entry ?w1 = Inr ?e1"
    by (simp add: new_entry_def get_attr_def get_default_def)
  have h2: "new_entry ?w2 = Inr ?e2"
    by (simp add: new_entry_def get_attr_def get_default_def)
  have h: "new_entry (widget_values \<lparr>widget_values = ?w1, formations = initial_formations\<rparr>) = Inr ?e1"
    using h1 by simp
  show ?thesis
    using add_current_formation_appends [OF h h1 h2, THEN conjunct2, THEN conjunct2,
        THEN conjunct2, THEN conjunct2, THEN conjunct2]
    by (simp add: entry_cell_def schema_cols_def col_T_def)
qed

section \<open>Tab 6: the scoring step\<close>

subsection \<open>Rounding to two decimals\<close>





subsection \<open>Selecting and assigning columns\<close>

lemma pick_columns_cong:
  assumes "\<forall>c \<in> set cs. map_of al c = map_of al' c"
  shows "pick_columns al cs = pick_columns al' cs"
  using assms by (induction cs) (auto split: option.splits)

lemma select_columns_cong:
  assumes "nrows df' = nrows df"
      and "\<forall>c \<in> set cs. map_of (columns df') c = map_of (columns df) c"
  shows "select_columns df' cs = select_columns df cs"
proof -
  have "filter (\<lambda>c. map_of (columns df') c = None) cs = filter (\<lambda>c. map_of (columns df) c = None) cs"
    using assms(2) by (intro filter_cong) auto
  moreover have "pick_columns (columns df') cs = pick_columns (columns df) cs"
    using assms(2) by (rule pick_columns_cong)
  ultimately show ?thesis
    by (simp add: select_columns_def assms(1) split: list.splits)
qed

lemma Security_not_feature: "''Security'' \<notin> set feature_cols"
  by (simp add: feature_cols_def col_T_def)

lemma Security_not_schema: "''Security'' \<notin> set schema_cols"
  by (simp add: schema_cols_def col_T_def)



lemma filter_update_other:
  "filter (\<lambda>cv. fst cv \<noteq> k) (AList.update k v al) = filter (\<lambda>cv. fst cv \<noteq> k) al"
  by (induction al) auto

lemma set_update_subset: "set (AList.update k v al) \<subseteq> insert (k, v) (set al)"
  by (induction al) auto

lemma wf_set_column:
  assumes "wf_frame df" and "set_column df c vs = Inr df'"
  shows "wf_frame df'"
proof -
  have len: "length vs = nrows df" and df': "df' = df\<lparr>columns := AList.update c vs (columns df)\<rparr>"
    using assms(2) by (auto simp: set_column_def split: if_splits)
  have "distinct (map fst (AList.update c vs (columns df)))"
    using assms(1) by (simp add: wf_frame_def distinct_update)
  moreover have "list_all (\<lambda>cv. length (snd cv) = nrows df) (AList.update c vs (columns df))"
    unfolding list_all_iff
  proof
    fix cv assume "cv \<in> set (AList.update c vs (columns df))"
    then have "cv = (c, vs) \<or> cv \<in> set (columns df)"
      using set_update_subset [of c vs "columns df"] by auto
    then show "length (snd cv) = nrows df"
      using len assms(1) by (auto simp: wf_frame_def list_all_iff)
  qed
  ultimately show ?thesis
    by (simp add: wf_frame_def df')
qed

lemma wf_column_length:
  assumes "wf_frame df" and "map_of (columns df) c = Some vs"
  shows "length vs = nrows df"
proof -
  have "(c, vs) \<in> set (columns df)"
    using assms(2) by (rule map_of_SomeD)
  then show ?thesis
    using assms(1) by (auto simp: wf_frame_def list_all_iff)
qed

text \<open>
  The four ways through the \<^verbatim>\<open>try\<close> block: a feature column is missing, the pipeline
  raises, its answer has the wrong length, or the scores are attached.
\<close>

lemma score_formations_cases:
  obtains (key_error) e where "select_columns df feature_cols = Inl e"
      "score_formations pipeline df = (df, Some e)"
  | (model_error) X e where "select_columns df feature_cols = Inr X" "pipeline X = Inl e"
      "score_formations pipeline df = (df, Some e)"
  | (length_error) X proba where "select_columns df feature_cols = Inr X" "pipeline X = Inr proba"
      "length proba \<noteq> nrows df" "score_formations pipeline df = (df, Some ValueError)"
  | (scored) X proba where "select_columns df feature_cols = Inr X" "pipeline X = Inr proba"
      "length proba = nrows df"
      "score_formations pipeline df =
         (df\<lparr>columns := AList.update ''Security'' (map (\<lambda>p. Num (np_round 2 (snd p))) proba) (columns df)\<rparr>, None)"
proof (cases "select_columns df feature_cols")
  case (Inl e)
  then show ?thesis using key_error by (simp add: score_formations_def)
next
  case (Inr X)
  show ?thesis
  proof (cases "pipeline X")
    case (Inl e)
    then show ?thesis using model_error Inr by (simp add: score_formations_def)
  next
    case (Inr proba)
    show ?thesis
    proof (cases "length proba = nrows df")
      case True
      then show ?thesis using scored \<open>select_columns df feature_cols = Inr X\<close> Inr
        by (simp add: score_formations_def set_column_def)
    next
      case False
      then show ?thesis using length_error \<open>select_columns df feature_cols = Inr X\<close> Inr
        by (simp add: score_formations_def set_column_def)
    qed
  qed
qed



text \<open>
  The handler. When the classifier raises (or a feature column is missing, or anything
  else in the block raises), the exception is caught and reported, and the table is
  exactly what it was: no score is attached and the Security column of an earlier run
  stays as it is.
\<close>

lemma score_formations_failure:
  "(select_columns df feature_cols = Inl e \<longrightarrow> score_formations pipeline df = (df, Some e))
   \<and> (select_columns df feature_cols = Inr X \<and> pipeline X = Inl e
        \<longrightarrow> score_formations pipeline df = (df, Some e))
   \<and> (snd (score_formations pipeline df) \<noteq> None \<longrightarrow> fst (score_formations pipeline df) = df)"
proof (intro conjI impI)
  assume "select_columns df feature_cols = Inl e"
  then show "score_formations pipeline df = (df, Some e)"
    by (simp add: score_formations_def)
next
  assume "select_columns df feature_cols = Inr X \<and> pipeline X = Inl e"
  then show "score_formations pipeline df = (df, Some e)"
    by (simp add: score_formations_def)
next
  assume "snd (score_formations pipeline df) \<noteq> None"
  then show "fst (score_formations pipeline df) = df"
    by (cases rule: score_formations_cases [of df pipeline]) simp_all
qed

text \<open>
  A table scored earlier (Security 0.88) with a classifier that raises, and a table
  without the feature columns.
\<close>

lemma score_formations_failure_example:
  "score_formations (\<lambda>X. Inl (ModelError ''feature names do not match''))
     \<lparr>nrows = 1, columns =
        [(''Name'', [Str ''A'']), (''Depth (m)'', [Num 1200]),
         (''P (MPa)'', [Num 12]), (col_T, [Num 45]),
         (''CO2 Density (kg/m3)'', [Num 700]),
         (''Storage Capacity (Mt)'', [Num 4200]), (''Fault'', [Num 1]),
         (''Seal Thickness (m)'', [Num 30]), (''Reservoir Thickness (m)'', [Num 50]),
         (''Stacked'', [Num 0]), (''Security'', [Num (88/100)])]\<rparr>
   = (\<lparr>nrows = 1, columns =
        [(''Name'', [Str ''A'']), (''Depth (m)'', [Num 1200]),
         (''P (MPa)'', [Num 12]), (col_T, [Num 45]),
         (''CO2 Density (kg/m3)'', [Num 700]),
         (''Storage Capacity (Mt)'', [Num 4200]), (''Fault'', [Num 1]),
         (''Seal Thickness (m)'', [Num 30]), (''Reservoir Thickness (m)'', [Num 50]),
         (''Stacked'', [Num 0]), (''Security'', [Num (88/100)])]\<rparr>,
      Some (ModelError ''feature names do not match''))
   \<and> score_formations (\<lambda>X. Inr (replicate (nrows X) (1/2, 1/2)))
        \<lparr>nrows = 1, columns = [(''Name'', [Str ''A'']), (''Security'', [Num (88/100)])]\<rparr>
     = (\<lparr>nrows = 1, columns = [(''Name'', [Str ''A'']), (''Security'', [Num (88/100)])]\<rparr>,
        Some (KeyError feature_cols))"
proof -
  let ?p = "\<lambda>X::frame. (Inl (ModelError ''feature names do not match'') :: exn + (real \<times> real) list)"
  let ?df = "\<lparr>nrows = 1, columns =
        [(''Name'', [Str ''A'']), (''Depth (m)'', [Num 1200]),
         (''P (MPa)'', [Num 12]), (col_T, [Num 45]),
         (''CO2 Density (kg/m3)'', [Num 700]),
         (''Storage Capacity (Mt)'', [Num 4200]), (''Fault'', [Num 1]),
         (''Seal Thickness (m)'', [Num 30]), (''Reservoir Thickness (m)'', [Num 50]),
         (''Stacked'', [Num 0]), (''Security'', [Num (88/100)])]\<rparr>"
  let ?X = "\<lparr>nrows = 1, columns =
        [(''Depth (m)'', [Num 1200]),
         (''P (MPa)'', [Num 12]), (col_T, [Num 45]),
         (''CO2 Density (kg/m3)'', [Num 700]),
         (''Storage Capacity (Mt)'', [Num 4200]), (''Fault'', [Num 1]),
         (''Seal Thickness (m)'', [Num 30]), (''Reservoir Thickness (m)'', [Num 50]),
         (''Stacked'', [Num 0])]\<rparr>"
  let ?q = "\<lambda>X::frame. (Inr (replicate (nrows X) (1/2, 1/2)) :: exn + (real \<times> real) list)"
  let ?small = "\<lparr>nrows = 1, columns = [(''Name'', [Str ''A'']), (''Security'', [Num (88/100)])]\<rparr>"
  have sel: "select_columns ?df feature_cols = Inr ?X \<and> ?p ?X = Inl (ModelError ''feature names do not match'')"
    by (simp add: select_columns_def feature_cols_def col_T_def)
  have key: "select_columns ?small feature_cols = Inl (KeyError feature_cols)"
    by (simp add: select_columns_def feature_cols_def col_T_def)
  from score_formations_failure [of ?df "ModelError ''feature names do not match''" ?p ?X,
      THEN conjunct2, THEN conjunct1] sel
  have a: "score_formations ?p ?df = (?df, Some (ModelError ''feature names do not match''))"
    by (rule mp)
  from score_formations_failure [of ?small "KeyError feature_cols" ?q, THEN conjunct1] key
  have b: "score_formations ?q ?small = (?small, Some (KeyError feature_cols))"
    by (rule mp)
  from a b show ?thesis
    by (rule conjI)
qed

lemma score_formations_twice:
  "score_formations pipeline (fst (score_formations pipeline df)) = score_formations pipeline df"
proof (cases rule: score_formations_cases [of df pipeline])
  case (key_error e)
  then show ?thesis by simp
next
  case (model_error X e)
  then show ?thesis by simp
next
  case (length_error X proba)
  then show ?thesis by simp
next
  case (scored X proba)
  let ?v = "map (\<lambda>p. Num (np_round 2 (snd p))) proba"
  let ?df' = "df\<lparr>columns := AList.update ''Security'' ?v (columns df)\<rparr>"
  have "\<forall>c \<in> set feature_cols. map_of (columns ?df') c = map_of (columns df) c"
    using Security_not_feature by (auto simp: update_conv')
  then have "select_columns ?df' feature_cols = Inr X"
    using select_columns_cong [of ?df' df feature_cols] scored(1) by simp
  then have "score_formations pipeline ?df' = (?df', None)"
    using scored(2,3) by (simp add: score_formations_def set_column_def)
  then show ?thesis using scored(4) by simp
qed

lemma score_formations_nonempty:
  assumes "\<not> frame_empty df"
  shows "\<not> frame_empty (fst (score_formations pipeline df))"
  using assms
  by (cases rule: score_formations_cases [of df pipeline]) (simp_all add: frame_empty_def)

lemma wf_score_formations:
  assumes "wf_frame df"
  shows "wf_frame (fst (score_formations pipeline df))"
proof (cases rule: score_formations_cases [of df pipeline])
  case (scored X proba)
  let ?v = "map (\<lambda>p. Num (np_round 2 (snd p))) proba"
  have "set_column df ''Security'' ?v = Inr (df\<lparr>columns := AList.update ''Security'' ?v (columns df)\<rparr>)"
    using scored(3) by (simp add: set_column_def)
  from wf_set_column [OF assms this] show ?thesis
    using scored(4) by simp
qed (simp_all add: assms)

text \<open>
  Claim C9. Scoring twice in a row with the same classifier gives the same table, and the
  same report, as scoring once; so does entering the tab twice, whether the table is empty
  (nothing is scored) or not.
\<close>

theorem score_formations_idempotent:
  "score_formations pipeline (fst (score_formations pipeline df)) = score_formations pipeline df
   \<and> tab6_scoring pipeline (fst (tab6_scoring pipeline df)) = tab6_scoring pipeline df"
proof
  show "score_formations pipeline (fst (score_formations pipeline df)) = score_formations pipeline df"
    by (rule score_formations_twice)
  show "tab6_scoring pipeline (fst (tab6_scoring pipeline df)) = tab6_scoring pipeline df"
  proof (cases "frame_empty df")
    case True
    then show ?thesis by (simp add: tab6_scoring_def)
  next
    case False
    then show ?thesis
      by (simp add: tab6_scoring_def score_formations_nonempty score_formations_twice)
  qed
qed

text \<open>
  Claim C10. A scoring step that reports no error changes only the Security column: the
  row count is the same, the other columns (Name, Depth, Pressure, Temperature, CO2
  Density, Storage Capacity, Fault, Seal Thickness, Reservoir Thickness, Stacked,
  Longitude, Latitude, and any further one) are the same lists of cells in the same
  column order, so every record keeps its position and its other fields; the Security
  column is replaced where it stands or, if new, added after the last column.
\<close>

theorem score_formations_frame:
  assumes "score_formations pipeline df = (df', None)"
  shows "nrows df' = nrows df
       \<and> filter (\<lambda>cv. fst cv \<noteq> ''Security'') (columns df')
           = filter (\<lambda>cv. fst cv \<noteq> ''Security'') (columns df)
       \<and> (\<forall>c. c \<noteq> ''Security'' \<longrightarrow> map_of (columns df') c = map_of (columns df) c)
       \<and> list_all (\<lambda>c. map_of (columns df') c = map_of (columns df) c) schema_cols
       \<and> map fst (columns df') =
           (if ''Security'' \<in> set (map fst (columns df)) then map fst (columns df)
            else map fst (columns df) @ [''Security''])"
proof (cases rule: score_formations_cases [of df pipeline])
  case (key_error e)
  with assms show ?thesis by simp
next
  case (model_error X e)
  with assms show ?thesis by simp
next
  case (length_error X proba)
  with assms show ?thesis by simp
next
  case (scored X proba)
  let ?v = "map (\<lambda>p. Num (np_round 2 (snd p))) proba"
  have df': "df' = df\<lparr>columns := AList.update ''Security'' ?v (columns df)\<rparr>"
    using scored(4) assms by simp
  have cols: "columns df' = AList.update ''Security'' ?v (columns df)"
    by (simp add: df')
  have n: "nrows df' = nrows df"
    by (simp add: df')
  have others: "filter (\<lambda>cv. fst cv \<noteq> ''Security'') (columns df')
           = filter (\<lambda>cv. fst cv \<noteq> ''Security'') (columns df)"
    unfolding cols by (rule filter_update_other)
  have other: "\<forall>c. c \<noteq> ''Security'' \<longrightarrow> map_of (columns df') c = map_of (columns df) c"
    unfolding cols by (simp add: update_conv')
  have schema: "list_all (\<lambda>c. map_of (columns df') c = map_of (columns df) c) schema_cols"
    unfolding list_all_iff
  proof
    fix c assume "c \<in> set schema_cols"
    then have "c \<noteq> ''Security''"
      using Security_not_schema by auto
    then show "map_of (columns df') c = map_of (columns df) c"
      using other by simp
  qed
  have keys: "map fst (columns df') =
           (if ''Security'' \<in> set (map fst (columns df)) then map fst (columns df)
            else map fst (columns df) @ [''Security''])"
    unfolding cols by (rule update_keys)
  show ?thesis
    by (intro conjI) (fact n, fact others, fact other, fact schema, fact keys)
qed

text \<open>A table whose Security column (0.1 and a missing cell) is rescored to 0.75 and 0.75.\<close>

theorem score_formations_frame_witness:
  "score_formations (\<lambda>X. Inr (replicate (nrows X) (1/4, 3/4)))
     \<lparr>nrows = 2, columns =
        [(''Name'', [Str ''A'', Str ''B'']), (''Depth (m)'', [Num 1200, Num 900]),
         (''P (MPa)'', [Num 12, Num 9]), (col_T, [Num 45, Num 38]),
         (''CO2 Density (kg/m3)'', [Num 700, Num 650]),
         (''Storage Capacity (Mt)'', [Num 4200, Num 100]), (''Fault'', [Num 1, Num 0]),
         (''Security'', [Num (1/10), NaN]),
         (''Seal Thickness (m)'', [Num 30, Num 15]), (''Reservoir Thickness (m)'', [Num 50, Num 20]),
         (''Stacked'', [Num 0, Num 1]), (''Longitude'', [Num 3, Num 4]),
         (''Latitude'', [Num 5, Num 6])]\<rparr>
   = (\<lparr>nrows = 2, columns =
        [(''Name'', [Str ''A'', Str ''B'']), (''Depth (m)'', [Num 1200, Num 900]),
         (''P (MPa)'', [Num 12, Num 9]), (col_T, [Num 45, Num 38]),
         (''CO2 Density (kg/m3)'', [Num 700, Num 650]),
         (''Storage Capacity (Mt)'', [Num 4200, Num 100]), (''Fault'', [Num 1, Num 0]),
         (''Security'', [Num (3/4), Num (3/4)]),
         (''Seal Thickness (m)'', [Num 30, Num 15]), (''Reservoir Thickness (m)'', [Num 50, Num 20]),
         (''Stacked'', [Num 0, Num 1]), (''Longitude'', [Num 3, Num 4]),
         (''Latitude'', [Num 5, Num 6])]\<rparr>, None)
   \<and> filter (\<lambda>cv. fst cv \<noteq> ''Security'')
        [(''Name'', [Str ''A'', Str ''B'']), (''Depth (m)'', [Num 1200, Num 900]),
         (''P (MPa)'', [Num 12, Num 9]), (col_T, [Num 45, Num 38]),
         (''CO2 Density (kg/m3)'', [Num 700, Num 650]),
         (''Storage Capacity (Mt)'', [Num 4200, Num 100]), (''Fault'', [Num 1, Num 0]),
         (''Security'', [Num (3/4), Num (3/4)]),
         (''Seal Thickness (m)'', [Num 30, Num 15]), (''Reservoir Thickness (m)'', [Num 50, Num 20]),
         (''Stacked'', [Num 0, Num 1]), (''Longitude'', [Num 3, Num 4]),
         (''Latitude'', [Num 5, Num 6])]
     = [(''Name'', [Str ''A'', Str ''B'']), (''Depth (m)'', [Num 1200, Num 900]),
         (''P (MPa)'', [Num 12, Num 9]), (col_T, [Num 45, Num 38]),
         (''CO2 Density (kg/m3)'', [Num 700, Num 650]),
         (''Storage Capacity (Mt)'', [Num 4200, Num 100]), (''Fault'', [Num 1, Num 0]),
         (''Seal Thickness (m)'', [Num 30, Num 15]), (''Reservoir Thickness (m)'', [Num 50, Num 20]),
         (''Stacked'', [Num 0, Num 1]), (''Longitude'', [Num 3, Num 4]),
         (''Latitude'', [Num 5, Num 6])]"
proof -
  let ?p = "\<lambda>X::frame. (Inr (replicate (nrows X) (1/4, 3/4)) :: exn + (real \<times> real) list)"
  let ?df = "\<lparr>nrows = 2, columns =
        [(''Name'', [Str ''A'', Str ''B'']), (''Depth (m)'', [Num 1200, Num 900]),
         (''P (MPa)'', [Num 12, Num 9]), (col_T, [Num 45, Num 38]),
         (''CO2 Density (kg/m3)'', [Num 700, Num 650]),
         (''Storage Capacity (Mt)'', [Num 4200, Num 100]), (''Fault'', [Num 1, Num 0]),
         (''Security'', [Num (1/10), NaN]),
         (''Seal Thickness (m)'', [Num 30, Num 15]), (''Reservoir Thickness (m)'', [Num 50, Num 20]),
         (''Stacked'', [Num 0, Num 1]), (''Longitude'', [Num 3, Num 4]),
         (''Latitude'', [Num 5, Num 6])]\<rparr>"
  let ?df' = "\<lparr>nrows = 2, columns =
        [(''Name'', [Str ''A'', Str ''B'']), (''Depth (m)'', [Num 1200, Num 900]),
         (''P (MPa)'', [Num 12, Num 9]), (col_T, [Num 45, Num 38]),
         (''CO2 Density (kg/m3)'', [Num 700, Num 650]),
         (''Storage Capacity (Mt)'', [Num 4200, Num 100]), (''Fault'', [Num 1, Num 0]),
         (''Security'', [Num (3/4), Num (3/4)]),
         (''Seal Thickness (m)'', [Num 30, Num 15]), (''Reservoir Thickness (m)'', [Num 50, Num 20]),
         (''Stacked'', [Num 0, Num 1]), (''Longitude'', [Num 3, Num 4]),
         (''Latitude'', [Num 5, Num 6])]\<rparr>"
  have r: "np_round 2 (3/4) = 3/4"
    by (simp add: np_round_def rint_def Let_def)
  have sel: "select_columns ?df feature_cols = Inr \<lparr>nrows = 2, columns =
        [(''Depth (m)'', [Num 1200, Num 900]),
         (''P (MPa)'', [Num 12, Num 9]), (col_T, [Num 45, Num 38]),
         (''CO2 Density (kg/m3)'', [Num 700, Num 650]),
         (''Storage Capacity (Mt)'', [Num 4200, Num 100]), (''Fault'', [Num 1, Num 0]),
         (''Seal Thickness (m)'', [Num 30, Num 15]), (''Reservoir Thickness (m)'', [Num 50, Num 20]),
         (''Stacked'', [Num 0, Num 1])]\<rparr>"
    by (simp add: select_columns_def feature_cols_def col_T_def)
  have rep: "replicate 2 (1/4 :: real, 3/4 :: real) = [(1/4, 3/4), (1/4, 3/4)]"
    by (simp add: numeral_2_eq_2)
  have h: "score_formations ?p ?df = (?df', None)"
    unfolding score_formations_def sel
    by (simp add: set_column_def r rep col_T_def)
  from score_formations_frame [OF h, THEN conjunct2, THEN conjunct1]
  have "filter (\<lambda>cv. fst cv \<noteq> ''Security'') (columns ?df')
          = filter (\<lambda>cv. fst cv \<noteq> ''Security'') (columns ?df)" .
  then have "filter (\<lambda>cv. fst cv \<noteq> ''Security'') (columns ?df')
          = [(''Name'', [Str ''A'', Str ''B'']), (''Depth (m)'', [Num 1200, Num 900]),
         (''P (MPa)'', [Num 12, Num 9]), (col_T, [Num 45, Num 38]),
         (''CO2 Density (kg/m3)'', [Num 700, Num 650]),
         (''Storage Capacity (Mt)'', [Num 4200, Num 100]), (''Fault'', [Num 1, Num 0]),
         (''Seal Thickness (m)'', [Num 30, Num 15]), (''Reservoir Thickness (m)'', [Num 50, Num 20]),
         (''Stacked'', [Num 0, Num 1]), (''Longitude'', [Num 3, Num 4]),
         (''Latitude'', [Num 5, Num 6])]"
    by (simp add: col_T_def)
  with h show ?thesis
    by simp
qed

section \<open>Tab 6: the metrics of the selected formation\<close>

lemma first_index_least:
  assumes "i < length xs" and "P (xs ! i)" and "\<forall>k<i. \<not> P (xs ! k)"
  shows "first_index P xs = Some i"
  using assms
proof (induction xs arbitrary: i)
  case Nil
  then show ?case by simp
next
  case (Cons x xs)
  show ?case
  proof (cases i)
    case 0
    with Cons.prems show ?thesis by simp
  next
    case (Suc j)
    with Cons.prems have "\<not> P x" by auto
    moreover have "first_index P xs = Some j"
    proof (rule Cons.IH)
      show "j < length xs" using Cons.prems Suc by simp
      show "P (xs ! j)" using Cons.prems Suc by simp
      show "\<forall>k<j. \<not> P (xs ! k)" using Cons.prems(3) Suc by auto
    qed
    ultimately show ?thesis using Suc by simp
  qed
qed

lemma pd_eq_same: "pd_eq a b \<Longrightarrow> a = b"
  by (cases a; cases b) simp_all

lemma show_metrics_falsy: "\<not> truthy v \<Longrightarrow> show_metrics df v = Inr None"
  by (simp add: show_metrics_def)

text \<open>On a table that was never scored the metrics block raises.\<close>

lemma show_metrics_unscored:
  assumes "map_of (columns df) ''Name'' = Some names"
      and "first_index (\<lambda>x. pd_eq x v) names = Some k"
      and "truthy v"
      and "map_of (columns df) ''Security'' = None"
  shows "show_metrics df v = Inl (KeyError [''Security''])"
  using assms by (simp add: show_metrics_def get_column_def row_get_def)

text \<open>A text cell in a metric column cannot be printed as a number.\<close>

lemma show_metrics_text_cell:
  assumes "map_of (columns df) ''Name'' = Some names"
      and "first_index (\<lambda>x. pd_eq x v) names = Some k"
      and "truthy v"
      and "map_of (columns df) ''Security'' = Some secs"
      and "k < length secs"
      and "secs ! k = Str t"
  shows "show_metrics df v = Inl ValueError"
  using assms by (simp add: show_metrics_def get_column_def row_get_def)

text \<open>
  Claim C8, as amended. In a well-formed table with the Name, Security, Storage Capacity
  and Seal Thickness columns, let the same truthy name (a non-empty text, a non-zero
  number) stand in two rows \<open>i < j\<close>, row \<open>i\<close> being the first with that name and holding
  numbers in the three metric columns. Whichever of the two entries is picked in the
  selector (the selector returns the name, not the position), the metrics shown are the
  Security, Storage Capacity and Seal Thickness of row \<open>i\<close>, each printed with two
  decimals. For a falsy selection (the empty name, the number 0, None) no metrics are
  shown.
\<close>

theorem show_metrics_first_match:
  assumes wf: "wf_frame df"
      and names: "map_of (columns df) ''Name'' = Some names"
      and secs: "map_of (columns df) ''Security'' = Some secs"
      and caps: "map_of (columns df) ''Storage Capacity (Mt)'' = Some caps"
      and seals: "map_of (columns df) ''Seal Thickness (m)'' = Some seals"
      and ij: "i < j" "j < nrows df"
      and picked: "truthy (names ! j)"
      and dup: "pd_eq (names ! i) (names ! j)"
      and first: "\<forall>k<i. \<not> pd_eq (names ! k) (names ! j)"
      and cells: "secs ! i = Num a" "caps ! i = Num b" "seals ! i = Num c"
  shows "show_metrics df (names ! j) = Inr (Some (format_2f a, format_2f b, format_2f c))
       \<and> show_metrics df (names ! i) = Inr (Some (format_2f a, format_2f b, format_2f c))
       \<and> (\<forall>v. \<not> truthy v \<longrightarrow> show_metrics df v = Inr None)"
proof -
  have len: "length names = nrows df" "length secs = nrows df"
      "length caps = nrows df" "length seals = nrows df"
    using wf names secs caps seals by (simp_all add: wf_column_length)
  have i: "i < nrows df" using ij by simp
  have same: "names ! i = names ! j"
    using dup by (rule pd_eq_same)
  have "first_index (\<lambda>x. pd_eq x (names ! j)) names = Some i"
  proof (rule first_index_least)
    show "i < length names" using i len by simp
    show "pd_eq (names ! i) (names ! j)" by (fact dup)
    show "\<forall>k<i. \<not> pd_eq (names ! k) (names ! j)" by (fact first)
  qed
  then have shown: "show_metrics df (names ! j) = Inr (Some (format_2f a, format_2f b, format_2f c))"
    using picked names secs caps seals i len cells
    by (simp add: show_metrics_def get_column_def row_get_def)
  have falsy: "\<forall>v. \<not> truthy v \<longrightarrow> show_metrics df v = Inr None"
    by (simp add: show_metrics_def)
  show ?thesis
    using shown same falsy by simp
qed

lemma format_2f_examples:
  "format_2f (88/100) = ''0.88''" "format_2f 4200 = ''4200.00''" "format_2f 30 = ''30.00''"
  "format_2f (3/4) = ''0.75''" "format_2f 0 = ''0.00''" "format_2f (1/8) = ''0.12''"
  by (simp_all add: format_2f_def rint_def Let_def decimal_digit decimal_more digit_char_def)

text \<open>
  The name A in rows 1 and 2 of three: the metrics are those of row 1. The name 0 and
  the empty name show nothing.
\<close>

theorem show_metrics_first_match_witness:
  "show_metrics
     \<lparr>nrows = 3, columns =
        [(''Name'', [Str ''B'', Str ''A'', Str ''A'']),
         (''Storage Capacity (Mt)'', [Num 10, Num 4200, Num 100]),
         (''Seal Thickness (m)'', [Num 5, Num 30, Num 15]),
         (''Security'', [Num (1/2), Num (88/100), Num (12/100)])]\<rparr>
     (Str ''A'')
   = Inr (Some (''0.88'', ''4200.00'', ''30.00''))
   \<and> show_metrics
     \<lparr>nrows = 3, columns =
        [(''Name'', [Str ''B'', Str ''A'', Str ''A'']),
         (''Storage Capacity (Mt)'', [Num 10, Num 4200, Num 100]),
         (''Seal Thickness (m)'', [Num 5, Num 30, Num 15]),
         (''Security'', [Num (1/2), Num (88/100), Num (12/100)])]\<rparr>
     (Num 0)
   = Inr None"
proof -
  let ?df = "\<lparr>nrows = 3, columns =
        [(''Name'', [Str ''B'', Str ''A'', Str ''A'']),
         (''Storage Capacity (Mt)'', [Num 10, Num 4200, Num 100]),
         (''Seal Thickness (m)'', [Num 5, Num 30, Num 15]),
         (''Security'', [Num (1/2), Num (88/100), Num (12/100)])]\<rparr>"
  let ?names = "[Str ''B'', Str ''A'', Str ''A'']"
  have wf: "wf_frame ?df" by (simp add: wf_frame_def)
  have names: "map_of (columns ?df) ''Name'' = Some ?names" by simp
  have secs: "map_of (columns ?df) ''Security'' = Some [Num (1/2), Num (88/100), Num (12/100)]" by simp
  have caps: "map_of (columns ?df) ''Storage Capacity (Mt)'' = Some [Num 10, Num 4200, Num 100]" by simp
  have seals: "map_of (columns ?df) ''Seal Thickness (m)'' = Some [Num 5, Num 30, Num 15]" by simp
  have ij: "(1::nat) < 2" "2 < nrows ?df" by simp_all
  have picked: "truthy (?names ! 2)" by simp
  have dup: "pd_eq (?names ! 1) (?names ! 2)" by simp
  have first: "\<forall>k<1. \<not> pd_eq (?names ! k) (?names ! 2)" by simp
  have cells: "[Num (1/2), Num (88/100), Num (12/100)] ! 1 = Num (88/100)"
      "[Num 10, Num 4200, Num 100] ! 1 = Num 4200" "[Num 5, Num 30, Num 15] ! 1 = Num 30"
    by simp_all
  have zero: "\<not> truthy (Num 0)" by simp
  have sel: "?names ! 2 = Str ''A''" by simp
  have a: "show_metrics ?df (Str ''A'') = Inr (Some (''0.88'', ''4200.00'', ''30.00''))"
    using show_metrics_first_match [OF wf names secs caps seals ij picked dup first cells,
        THEN conjunct1]
    unfolding sel format_2f_examples .
  from show_metrics_first_match [OF wf names secs caps seals ij picked dup first cells,
        THEN conjunct2, THEN conjunct2] zero
  have b: "show_metrics ?df (Num 0) = Inr None"
    by blast
  from a b show ?thesis
    by (rule conjI)
qed

text \<open>
  Two clicks on Add Formation with the name left empty, then a scoring step, give the
  table of the next theorem.
\<close>

lemma two_unnamed_formations:
  "ebind (add_current_formation
           \<lparr>widget_values = [''reservoir_name'' \<mapsto> Str '''', ''faulted'' \<mapsto> NoneV,
                             ''stacked'' \<mapsto> NoneV],
            formations = initial_formations\<rparr>) (\<lambda>st1.
   ebind (add_current_formation st1) (\<lambda>st2.
   Inr (fst (score_formations (\<lambda>X. Inr (replicate (nrows X) (1/4, 3/4))) (formations st2)))))
   = Inr \<lparr>nrows = 2, columns =
        [(''Name'', [Str '''', Str '''']), (''Depth (m)'', [Num 0, Num 0]),
         (''P (MPa)'', [Num 0, Num 0]), (col_T, [Num 0, Num 0]),
         (''CO2 Density (kg/m3)'', [Num 0, Num 0]),
         (''Storage Capacity (Mt)'', [Num 0, Num 0]), (''Fault'', [Num 0, Num 0]),
         (''Seal Thickness (m)'', [Num 0, Num 0]), (''Reservoir Thickness (m)'', [Num 0, Num 0]),
         (''Stacked'', [Num 0, Num 0]), (''Longitude'', [Num 0, Num 0]),
         (''Latitude'', [Num 0, Num 0]), (''Security'', [Num (3/4), Num (3/4)])]\<rparr>"
proof -
  let ?w = "[''reservoir_name'' \<mapsto> Str '''', ''faulted'' \<mapsto> NoneV, ''stacked'' \<mapsto> NoneV]"
  let ?e = "[(''Name'', Str ''''), (''Depth (m)'', Num 0), (''P (MPa)'', Num 0), (col_T, Num 0),
          (''CO2 Density (kg/m3)'', Num 0), (''Storage Capacity (Mt)'', Num 0),
          (''Fault'', Num 0), (''Seal Thickness (m)'', Num 0),
          (''Reservoir Thickness (m)'', Num 0), (''Stacked'', Num 0),
          (''Longitude'', Num 0), (''Latitude'', Num 0)]"
  let ?df1 = "\<lparr>nrows = 1, columns = map (\<lambda>c. (c, [entry_cell ?e c])) schema_cols\<rparr>"
  let ?df2 = "\<lparr>nrows = 2, columns = map (\<lambda>c. (c, [entry_cell ?e c, entry_cell ?e c])) schema_cols\<rparr>"
  let ?p = "\<lambda>X::frame. (Inr (replicate (nrows X) (1/4, 3/4)) :: exn + (real \<times> real) list)"
  have e: "new_entry ?w = Inr ?e"
    by (simp add: new_entry_def get_attr_def get_default_def)
  have keys: "map fst ?e = schema_cols"
    by (simp add: schema_cols_def)
  have one: "add_current_formation \<lparr>widget_values = ?w, formations = initial_formations\<rparr>
       = Inr \<lparr>widget_values = ?w, formations = ?df1\<rparr>"
    by (simp add: add_current_formation_def e concat_row_initial [OF keys])
  have "set (map fst ?e) \<subseteq> set (map fst (columns ?df1))"
    by (simp add: schema_cols_def comp_def)
  from concat_row_known_keys [OF this]
  have "concat_row ?df1 ?e = ?df2"
    by (simp add: comp_def)
  then have two: "add_current_formation \<lparr>widget_values = ?w, formations = ?df1\<rparr>
       = Inr \<lparr>widget_values = ?w, formations = ?df2\<rparr>"
    by (simp add: add_current_formation_def e)
  have df2: "?df2 = \<lparr>nrows = 2, columns =
        [(''Name'', [Str '''', Str '''']), (''Depth (m)'', [Num 0, Num 0]),
         (''P (MPa)'', [Num 0, Num 0]), (col_T, [Num 0, Num 0]),
         (''CO2 Density (kg/m3)'', [Num 0, Num 0]),
         (''Storage Capacity (Mt)'', [Num 0, Num 0]), (''Fault'', [Num 0, Num 0]),
         (''Seal Thickness (m)'', [Num 0, Num 0]), (''Reservoir Thickness (m)'', [Num 0, Num 0]),
         (''Stacked'', [Num 0, Num 0]), (''Longitude'', [Num 0, Num 0]),
         (''Latitude'', [Num 0, Num 0])]\<rparr>"
    by (simp add: entry_cell_def schema_cols_def col_T_def)
  have r: "np_round 2 (3/4) = 3/4"
    by (simp add: np_round_def rint_def Let_def)
  have rep: "replicate 2 (1/4 :: real, 3/4 :: real) = [(1/4, 3/4), (1/4, 3/4)]"
    by (simp add: numeral_2_eq_2)
  have score: "fst (score_formations ?p ?df2) = \<lparr>nrows = 2, columns =
        [(''Name'', [Str '''', Str '''']), (''Depth (m)'', [Num 0, Num 0]),
         (''P (MPa)'', [Num 0, Num 0]), (col_T, [Num 0, Num 0]),
         (''CO2 Density (kg/m3)'', [Num 0, Num 0]),
         (''Storage Capacity (Mt)'', [Num 0, Num 0]), (''Fault'', [Num 0, Num 0]),
         (''Seal Thickness (m)'', [Num 0, Num 0]), (''Reservoir Thickness (m)'', [Num 0, Num 0]),
         (''Stacked'', [Num 0, Num 0]), (''Longitude'', [Num 0, Num 0]),
         (''Latitude'', [Num 0, Num 0]), (''Security'', [Num (3/4), Num (3/4)])]\<rparr>"
    unfolding df2
    by (simp add: score_formations_def select_columns_def feature_cols_def set_column_def
        r rep col_T_def)
  show ?thesis
    by (simp only: one two ebind_Inr session.simps score)
qed

text \<open>
  Claim C8 as stated fails for the empty name: it stands in both rows of this table, and
  selecting it shows no metrics at all, because the empty string is falsy in
  \<^verbatim>\<open>if selected_name:\<close>.
\<close>

theorem show_metrics_empty_name_counterexample:
  "show_metrics
     \<lparr>nrows = 2, columns =
        [(''Name'', [Str '''', Str '''']), (''Depth (m)'', [Num 0, Num 0]),
         (''P (MPa)'', [Num 0, Num 0]), (col_T, [Num 0, Num 0]),
         (''CO2 Density (kg/m3)'', [Num 0, Num 0]),
         (''Storage Capacity (Mt)'', [Num 0, Num 0]), (''Fault'', [Num 0, Num 0]),
         (''Seal Thickness (m)'', [Num 0, Num 0]), (''Reservoir Thickness (m)'', [Num 0, Num 0]),
         (''Stacked'', [Num 0, Num 0]), (''Longitude'', [Num 0, Num 0]),
         (''Latitude'', [Num 0, Num 0]), (''Security'', [Num (3/4), Num (3/4)])]\<rparr>
     (Str '''')
   = Inr None
   \<and> show_metrics
     \<lparr>nrows = 2, columns =
        [(''Name'', [Str '''', Str '''']), (''Depth (m)'', [Num 0, Num 0]),
         (''P (MPa)'', [Num 0, Num 0]), (col_T, [Num 0, Num 0]),
         (''CO2 Density (kg/m3)'', [Num 0, Num 0]),
         (''Storage Capacity (Mt)'', [Num 0, Num 0]), (''Fault'', [Num 0, Num 0]),
         (''Seal Thickness (m)'', [Num 0, Num 0]), (''Reservoir Thickness (m)'', [Num 0, Num 0]),
         (''Stacked'', [Num 0, Num 0]), (''Longitude'', [Num 0, Num 0]),
         (''Latitude'', [Num 0, Num 0]), (''Security'', [Num (3/4), Num (3/4)])]\<rparr>
     (Str '''')
   \<noteq> Inr (Some (''0.75'', ''0.00'', ''0.00''))"
  by (simp add: show_metrics_def)

section \<open>Tab 6: one run of the block\<close>

text \<open>The table a run leaves behind is the one the guarded scoring step gives.\<close>

lemma tab6_table: "fst (tab6 pipeline choice df) = fst (tab6_scoring pipeline df)"
  by (simp add: tab6_def tab6_scoring_def split: prod.splits)

text \<open>
  On a table scored on an earlier run, a failing classifier is reported and the run goes
  on to show the metrics from the scores it kept.
\<close>

lemma tab6_failure_after_scoring:
  "tab6 (\<lambda>X. Inl (ModelError ''feature names do not match'')) 0
     \<lparr>nrows = 1, columns =
        [(''Name'', [Str ''A'']), (''Depth (m)'', [Num 1200]),
         (''P (MPa)'', [Num 12]), (col_T, [Num 45]),
         (''CO2 Density (kg/m3)'', [Num 700]),
         (''Storage Capacity (Mt)'', [Num 4200]), (''Fault'', [Num 1]),
         (''Seal Thickness (m)'', [Num 30]), (''Reservoir Thickness (m)'', [Num 50]),
         (''Stacked'', [Num 0]), (''Security'', [Num (3/4)])]\<rparr>
   = (\<lparr>nrows = 1, columns =
        [(''Name'', [Str ''A'']), (''Depth (m)'', [Num 1200]),
         (''P (MPa)'', [Num 12]), (col_T, [Num 45]),
         (''CO2 Density (kg/m3)'', [Num 700]),
         (''Storage Capacity (Mt)'', [Num 4200]), (''Fault'', [Num 1]),
         (''Seal Thickness (m)'', [Num 30]), (''Reservoir Thickness (m)'', [Num 50]),
         (''Stacked'', [Num 0]), (''Security'', [Num (3/4)])]\<rparr>,
      Inr (Assessment (Some (ModelError ''feature names do not match''))
             (Some (''0.75'', ''4200.00'', ''30.00''))))"
  by (simp add: tab6_def frame_empty_def score_formations_def select_columns_def
      feature_cols_def get_column_def selectbox_def show_metrics_def row_get_def
      format_2f_examples col_T_def)

text \<open>
  Claim C3 fails on a table that was never scored. One formation named A is added to the
  initial table and the tab is entered with a classifier that raises. The handler catches
  and reports the failure and the table is left as it was, but the run then reads
  \<^verbatim>\<open>row['Security']\<close> outside the \<^verbatim>\<open>try\<close>: the KeyError is caught by nothing and ends
  the script run. Tab 7 tests \<^verbatim>\<open>"Security" in st.session_state.formations\<close> before it
  reads the column; tab 6 does not.
\<close>

theorem tab6_failure_uncaught:
  "ebind (add_current_formation
           \<lparr>widget_values = [''reservoir_name'' \<mapsto> Str ''A'', ''faulted'' \<mapsto> NoneV,
                             ''stacked'' \<mapsto> NoneV],
            formations = initial_formations\<rparr>) (\<lambda>st.
   Inr (tab6 (\<lambda>X. Inl (ModelError ''feature names do not match'')) 0 (formations st)))
   = Inr (\<lparr>nrows = 1, columns =
            [(''Name'', [Str ''A'']), (''Depth (m)'', [Num 0]), (''P (MPa)'', [Num 0]),
             (col_T, [Num 0]), (''CO2 Density (kg/m3)'', [Num 0]),
             (''Storage Capacity (Mt)'', [Num 0]), (''Fault'', [Num 0]),
             (''Seal Thickness (m)'', [Num 0]), (''Reservoir Thickness (m)'', [Num 0]),
             (''Stacked'', [Num 0]), (''Longitude'', [Num 0]), (''Latitude'', [Num 0])]\<rparr>,
          Inl (KeyError [''Security'']))"
proof -
  let ?w = "[''reservoir_name'' \<mapsto> Str ''A'', ''faulted'' \<mapsto> NoneV, ''stacked'' \<mapsto> NoneV]"
  let ?e = "[(''Name'', Str ''A''), (''Depth (m)'', Num 0), (''P (MPa)'', Num 0), (col_T, Num 0),
          (''CO2 Density (kg/m3)'', Num 0), (''Storage Capacity (Mt)'', Num 0),
          (''Fault'', Num 0), (''Seal Thickness (m)'', Num 0),
          (''Reservoir Thickness (m)'', Num 0), (''Stacked'', Num 0),
          (''Longitude'', Num 0), (''Latitude'', Num 0)]"
  let ?df = "\<lparr>nrows = 1, columns =
            [(''Name'', [Str ''A'']), (''Depth (m)'', [Num 0]), (''P (MPa)'', [Num 0]),
             (col_T, [Num 0]), (''CO2 Density (kg/m3)'', [Num 0]),
             (''Storage Capacity (Mt)'', [Num 0]), (''Fault'', [Num 0]),
             (''Seal Thickness (m)'', [Num 0]), (''Reservoir Thickness (m)'', [Num 0]),
             (''Stacked'', [Num 0]), (''Longitude'', [Num 0]), (''Latitude'', [Num 0])]\<rparr>"
  let ?p = "\<lambda>X::frame. (Inl (ModelError ''feature names do not match'') :: exn + (real \<times> real) list)"
  have e: "new_entry ?w = Inr ?e"
    by (simp add: new_entry_def get_attr_def get_default_def)
  have keys: "map fst ?e = schema_cols"
    by (simp add: schema_cols_def)
  have "concat_row initial_formations ?e = ?df"
    unfolding concat_row_initial [OF keys]
    by (simp add: entry_cell_def schema_cols_def col_T_def)
  then have added: "add_current_formation \<lparr>widget_values = ?w, formations = initial_formations\<rparr>
       = Inr \<lparr>widget_values = ?w, formations = ?df\<rparr>"
    by (simp add: add_current_formation_def e)
  have run: "tab6 ?p 0 ?df = (?df, Inl (KeyError [''Security'']))"
    by (simp add: tab6_def frame_empty_def score_formations_def select_columns_def
        feature_cols_def get_column_def selectbox_def show_metrics_def row_get_def col_T_def)
  show ?thesis
    by (simp only: added ebind_Inr session.simps run)
qed

end
